theory Spec2Isabelle
  imports Main
begin

section \<open>Memory: arrays on the free store and pointers into them\<close>

text \<open>
  \<^verbatim>\<open>dynarray<T>\<close> holds an array made by \<^verbatim>\<open>new T[count]\<close> in a
  \<^verbatim>\<open>std::unique_ptr<T[]>\<close>, and its iterators are raw pointers into that array.
  Claims about moves are claims about which array an object points to, so the arrays
  live in an explicit store: the free store is the list of the arrays allocated so
  far, an address is a position in that list, and a pointer is an address (or null)
  with an element offset. Nothing in the modelled code releases an array (the
  destructor is not modelled), so an address is never reused.

  \<^verbatim>\<open>size_type\<close> is modelled as \<open>nat\<close>: the modelled functions store and compare
  sizes and add them to pointers, but never add or subtract two sizes. The bound on a
  size is written out where a size is used to allocate.

  Undefined behaviour (reading or writing through a null pointer or outside an array)
  is the result \<open>None\<close>.
\<close>

type_synonym addr = nat

type_synonym 'a heap = "'a list list"

datatype ptr = Ptr (base: "addr option") (off: nat)

fun ptr_add :: "ptr \<Rightarrow> nat \<Rightarrow> ptr" where
  "ptr_add (Ptr b i) n = Ptr b (i + n)"

definition ptr_inc :: "ptr \<Rightarrow> ptr" where
  "ptr_inc p = ptr_add p 1"

text \<open>Decrementing a pointer to the first element of an array is undefined.\<close>

fun ptr_dec :: "ptr \<Rightarrow> ptr option" where
  "ptr_dec (Ptr b 0) = None"
| "ptr_dec (Ptr b (Suc i)) = Some (Ptr b i)"

fun deref :: "'a heap \<Rightarrow> ptr \<Rightarrow> 'a option" where
  "deref h (Ptr None i) = None"
| "deref h (Ptr (Some a) i) =
     (if a < length h \<and> i < length (h ! a) then Some (h ! a ! i) else None)"

fun store :: "'a heap \<Rightarrow> ptr \<Rightarrow> 'a \<Rightarrow> 'a heap option" where
  "store h (Ptr None i) v = None"
| "store h (Ptr (Some a) i) v =
     (if a < length h \<and> i < length (h ! a) then Some (h[a := (h ! a)[i := v]]) else None)"

text \<open>The number of elements of the array a pointer points into (0 for a dangling one).\<close>

fun extent :: "'a heap \<Rightarrow> ptr \<Rightarrow> nat" where
  "extent h (Ptr None i) = 0"
| "extent h (Ptr (Some a) i) = (if a < length h then length (h ! a) else 0)"

text \<open>
  The exceptions: \<^verbatim>\<open>std::invalid_argument\<close> and \<^verbatim>\<open>std::out_of_range\<close>, thrown by the
  class with a message, and \<^verbatim>\<open>std::bad_array_new_length\<close> and \<^verbatim>\<open>std::bad_alloc\<close>,
  thrown by \<^verbatim>\<open>new T[count]\<close>.
\<close>

datatype error =
    InvalidArgument string
  | OutOfRange string
  | BadArrayNewLength
  | BadAlloc

text \<open>
  \<^verbatim>\<open>new T[count]\<close> can fail, and whether it does depends on the element type, the
  implementation and the memory in use. These are the parameters of an allocation:
  \<open>sizeof_T\<close> is \<^verbatim>\<open>sizeof(T)\<close> (at least 1 in C++, so 0 is read as 1), \<open>max_bytes\<close>
  is the largest size in bytes the implementation accepts for an array (at most
  \<^verbatim>\<open>SIZE_MAX\<close>), and \<open>avail_bytes\<close> is what the allocation function can provide at
  this call.
\<close>

record allocation =
  sizeof_T :: nat
  max_bytes :: nat
  avail_bytes :: nat

definition array_bytes :: "allocation \<Rightarrow> nat \<Rightarrow> nat" where
  "array_bytes al count = count * max 1 (sizeof_T al)"

text \<open>
  \<^verbatim>\<open>new T[count]\<close>: it throws \<^verbatim>\<open>std::bad_array_new_length\<close> when the size of the array
  exceeds the implementation's limit and \<^verbatim>\<open>std::bad_alloc\<close> when the allocation
  function cannot provide the memory; otherwise it gives a fresh array of \<open>count\<close>
  default-initialised elements. What a default-initialised \<open>T\<close> is depends on \<open>T\<close>; it
  is the parameter \<open>dflt\<close>.
\<close>

definition new_array :: "allocation \<Rightarrow> nat \<Rightarrow> 'a \<Rightarrow> 'a heap \<Rightarrow> error + addr \<times> 'a heap" where
  "new_array al count dflt h =
     (if max_bytes al < array_bytes al count then Inl BadArrayNewLength
      else if avail_bytes al < array_bytes al count then Inl BadAlloc
      else Inr (length h, h @ [replicate count dflt]))"

section \<open>The standard library functions the source calls\<close>

text \<open>
  \<^verbatim>\<open>std::fill(first, last, value)\<close>:
  \<^verbatim>\<open>for (; first != last; ++first) *first = value;\<close>
  The loop ends when it reaches \<open>last\<close> or writes outside an array, so it is total.
\<close>

function std_fill :: "ptr \<Rightarrow> ptr \<Rightarrow> 'a \<Rightarrow> 'a heap \<Rightarrow> 'a heap option" where
  "std_fill p_first p_last v h =
     (if p_first = p_last then Some h
      else case store h p_first v of
             None \<Rightarrow> None
           | Some h' \<Rightarrow> std_fill (ptr_inc p_first) p_last v h')"
  by pat_completeness auto
termination
proof (relation "measure (\<lambda>(p_first, p_last, v, h). extent h p_first - off p_first)")
  show "wf (measure (\<lambda>(p_first, p_last, v, h). extent h p_first - off p_first))"
    by simp
next
  fix p_first p_last :: ptr and v :: 'a and h h' :: "'a heap"
  assume "store h p_first v = Some h'"
  then have "off p_first < extent h p_first \<and> extent h' (ptr_inc p_first) = extent h p_first
      \<and> off (ptr_inc p_first) = Suc (off p_first)"
    by (cases p_first; cases "base p_first")
       (auto split: if_splits simp: ptr_inc_def nth_list_update)
  then show "((ptr_inc p_first, p_last, v, h'), (p_first, p_last, v, h))
      \<in> measure (\<lambda>(p_first, p_last, v, h). extent h p_first - off p_first)"
    by (auto intro: diff_less_mono2)
qed

text \<open>
  \<^verbatim>\<open>std::copy(first, last, d_first)\<close>:
  \<^verbatim>\<open>for (; first != last; ++first, ++d_first) *d_first = *first;\<close>
  The source never uses the iterator \<^verbatim>\<open>std::copy\<close> returns, so the model returns
  the store only.
\<close>

function std_copy :: "ptr \<Rightarrow> ptr \<Rightarrow> ptr \<Rightarrow> 'a heap \<Rightarrow> 'a heap option" where
  "std_copy p_first p_last d_first h =
     (if p_first = p_last then Some h
      else case deref h p_first of
             None \<Rightarrow> None
           | Some v \<Rightarrow>
               (case store h d_first v of
                  None \<Rightarrow> None
                | Some h' \<Rightarrow> std_copy (ptr_inc p_first) p_last (ptr_inc d_first) h'))"
  by pat_completeness auto
termination
proof (relation "measure (\<lambda>(p_first, p_last, d_first, h). extent h p_first - off p_first)")
  show "wf (measure (\<lambda>(p_first, p_last, d_first, h). extent h p_first - off p_first))"
    by simp
next
  fix p_first p_last d_first :: ptr and v :: 'a and h h' :: "'a heap"
  assume "deref h p_first = Some v" and "store h d_first v = Some h'"
  then have "off p_first < extent h p_first \<and> extent h' (ptr_inc p_first) = extent h p_first
      \<and> off (ptr_inc p_first) = Suc (off p_first)"
    by (cases p_first; cases "base p_first"; cases d_first; cases "base d_first")
       (auto split: if_splits simp: ptr_inc_def nth_list_update)
  then show "((ptr_inc p_first, p_last, ptr_inc d_first, h'), (p_first, p_last, d_first, h))
      \<in> measure (\<lambda>(p_first, p_last, d_first, h). extent h p_first - off p_first)"
    by (auto intro: diff_less_mono2)
qed

text \<open>\<^verbatim>\<open>std::swap(a, b)\<close> on the pair of the two variables.\<close>

definition std_swap :: "'b \<times> 'b \<Rightarrow> 'b \<times> 'b" where
  "std_swap ab = (snd ab, fst ab)"

text \<open>\<^verbatim>\<open>std::to_string\<close> of an unsigned value: its decimal digits.\<close>

fun to_string :: "nat \<Rightarrow> string" where
  "to_string n =
     (if n < 10 then [''0123456789'' ! n]
      else to_string (n div 10) @ [''0123456789'' ! (n mod 10)])"

declare to_string.simps [simp del]

text \<open>
  \<^verbatim>\<open>std::initializer_list<T>\<close>: a pointer to the first element of the array behind
  the braces, and its length. \<open>braced_init xs\<close> is the expression \<^verbatim>\<open>{x1, ..., xn}\<close>:
  it materialises the backing array.
\<close>

record initializer_list =
  il_first :: ptr
  il_len :: nat

definition il_begin :: "initializer_list \<Rightarrow> ptr" where
  "il_begin l = il_first l"

definition il_end :: "initializer_list \<Rightarrow> ptr" where
  "il_end l = ptr_add (il_first l) (il_len l)"

definition il_size :: "initializer_list \<Rightarrow> nat" where
  "il_size l = il_len l"

definition braced_init :: "'a list \<Rightarrow> 'a heap \<Rightarrow> initializer_list \<times> 'a heap" where
  "braced_init xs h = (\<lparr>il_first = Ptr (Some (length h)) 0, il_len = length xs\<rparr>, h @ [xs])"

section \<open>Member functions that may be ill-formed\<close>

text \<open>
  A member function of a class template is instantiated when it is used, and as a
  whole: if an expression of its body is ill-formed, the program that calls it does
  not compile, whatever the arguments are and whichever branch of the body would run.
  So a member function is modelled in two stages. Instantiating it gives
  \<open>Ill_formed\<close>, or \<open>Member f\<close> with \<open>f\<close> the function its body computes.
  \<open>uses m k\<close> is a body that names the member \<open>m\<close>: it is ill-formed when \<open>m\<close> is,
  and otherwise it is \<open>k\<close> of the function \<open>m\<close> stands for. \<open>app m x\<close> is the call of
  \<open>m\<close> with the (next) argument \<open>x\<close>.
\<close>

datatype 'f member_fn = Ill_formed | Member 'f

definition uses :: "'f member_fn \<Rightarrow> ('f \<Rightarrow> 'g member_fn) \<Rightarrow> 'g member_fn" where
  "uses m k = (case m of Ill_formed \<Rightarrow> Ill_formed | Member f \<Rightarrow> k f)"

definition app :: "('x \<Rightarrow> 'f) member_fn \<Rightarrow> 'x \<Rightarrow> 'f member_fn" where
  "app m x = (case m of Ill_formed \<Rightarrow> Ill_formed | Member f \<Rightarrow> Member (f x))"

text \<open>
  \<^verbatim>\<open>std::unique_ptr<T[]>\<close> has the members \<^verbatim>\<open>get\<close>, \<^verbatim>\<open>release\<close>, \<^verbatim>\<open>reset\<close>,
  \<^verbatim>\<open>swap\<close>, \<^verbatim>\<open>get_deleter\<close>, \<^verbatim>\<open>operator bool\<close> and \<^verbatim>\<open>operator[]\<close>. It has no
  member \<^verbatim>\<open>data\<close>: the expression \<^verbatim>\<open>m_data.data()\<close>, which the source writes for
  the stored pointer, is ill-formed.
\<close>

definition unique_ptr_data :: "(addr option \<Rightarrow> ptr) member_fn" where
  "unique_ptr_data = Ill_formed"

text \<open>
  \<^verbatim>\<open>std::reverse_iterator<T*>\<close> holds a pointer \<^verbatim>\<open>current\<close>; dereferencing it reads
  the element before \<^verbatim>\<open>current\<close> (\<^verbatim>\<open>*--tmp\<close>), and incrementing it decrements
  \<^verbatim>\<open>current\<close>. Its constructor takes a \<^verbatim>\<open>T*\<close>. The class names this type
  \<^verbatim>\<open>reverse_iterator\<close>; the const overloads of the reverse accessors write
  \<^verbatim>\<open>reverse_iterator{p}\<close> with \<open>p\<close> a \<^verbatim>\<open>T const*\<close>, which does not convert to
  \<^verbatim>\<open>T*\<close>: that expression is ill-formed.
\<close>

datatype reverse_iterator = Reverse_iterator (current: ptr)

definition reverse_iterator_from_const :: "(ptr \<Rightarrow> reverse_iterator) member_fn" where
  "reverse_iterator_from_const = Ill_formed"

definition rev_deref :: "'a heap \<Rightarrow> reverse_iterator \<Rightarrow> 'a option" where
  "rev_deref h it = (case ptr_dec (current it) of None \<Rightarrow> None | Some p \<Rightarrow> deref h p)"

definition rev_inc :: "reverse_iterator \<Rightarrow> reverse_iterator option" where
  "rev_inc it = map_option Reverse_iterator (ptr_dec (current it))"

section \<open>The class \<^verbatim>\<open>utils::dynarray<T>\<close>\<close>

text \<open>
  The two members, in declaration order. \<open>m_data = None\<close> is a \<^verbatim>\<open>unique_ptr\<close> that
  holds the null pointer.
\<close>

record dynarray =
  m_data :: "addr option"
  m_size :: nat

subsection \<open>Capacity\<close>

definition empty_d :: "dynarray \<Rightarrow> bool" where
  "empty_d this = (m_size this = 0)"

definition size_d :: "dynarray \<Rightarrow> nat" where
  "size_d this = m_size this"

subsection \<open>Raw buffer and iterators\<close>

text \<open>
  Every one of these bodies is \<^verbatim>\<open>m_data.data()\<close>, or \<^verbatim>\<open>m_data.data() + size()\<close>, or
  is built on \<^verbatim>\<open>begin()\<close> or \<^verbatim>\<open>end()\<close>. Each overload of the source is one
  definition; the const overloads of \<^verbatim>\<open>rbegin\<close> and \<^verbatim>\<open>rend\<close> call the const
  overloads of \<^verbatim>\<open>end\<close> and \<^verbatim>\<open>begin\<close>, and \<^verbatim>\<open>crbegin\<close> and \<^verbatim>\<open>crend\<close> call
  \<^verbatim>\<open>cend\<close> and \<^verbatim>\<open>cbegin\<close>.
\<close>

definition data :: "(dynarray \<Rightarrow> ptr) member_fn" where
  "data = uses unique_ptr_data (\<lambda>m_data_data. Member (\<lambda>this. m_data_data (m_data this)))"

definition data_const :: "(dynarray \<Rightarrow> ptr) member_fn" where
  "data_const = uses unique_ptr_data (\<lambda>m_data_data. Member (\<lambda>this. m_data_data (m_data this)))"

definition begin_d :: "(dynarray \<Rightarrow> ptr) member_fn" where
  "begin_d = uses unique_ptr_data (\<lambda>m_data_data. Member (\<lambda>this. m_data_data (m_data this)))"

definition begin_const :: "(dynarray \<Rightarrow> ptr) member_fn" where
  "begin_const = uses unique_ptr_data (\<lambda>m_data_data. Member (\<lambda>this. m_data_data (m_data this)))"

definition cbegin :: "(dynarray \<Rightarrow> ptr) member_fn" where
  "cbegin = uses unique_ptr_data (\<lambda>m_data_data. Member (\<lambda>this. m_data_data (m_data this)))"

definition end_d :: "(dynarray \<Rightarrow> ptr) member_fn" where
  "end_d = uses unique_ptr_data
     (\<lambda>m_data_data. Member (\<lambda>this. ptr_add (m_data_data (m_data this)) (size_d this)))"

definition end_const :: "(dynarray \<Rightarrow> ptr) member_fn" where
  "end_const = uses unique_ptr_data
     (\<lambda>m_data_data. Member (\<lambda>this. ptr_add (m_data_data (m_data this)) (size_d this)))"

definition cend :: "(dynarray \<Rightarrow> ptr) member_fn" where
  "cend = uses unique_ptr_data
     (\<lambda>m_data_data. Member (\<lambda>this. ptr_add (m_data_data (m_data this)) (size_d this)))"

definition rbegin :: "(dynarray \<Rightarrow> reverse_iterator) member_fn" where
  "rbegin = uses end_d (\<lambda>the_end. Member (\<lambda>this. Reverse_iterator (the_end this)))"

definition rbegin_const :: "(dynarray \<Rightarrow> reverse_iterator) member_fn" where
  "rbegin_const = uses end_const (\<lambda>the_end. uses reverse_iterator_from_const
     (\<lambda>make. Member (\<lambda>this. make (the_end this))))"

definition crbegin :: "(dynarray \<Rightarrow> reverse_iterator) member_fn" where
  "crbegin = uses cend (\<lambda>the_cend. uses reverse_iterator_from_const
     (\<lambda>make. Member (\<lambda>this. make (the_cend this))))"

definition rend :: "(dynarray \<Rightarrow> reverse_iterator) member_fn" where
  "rend = uses begin_d (\<lambda>the_begin. Member (\<lambda>this. Reverse_iterator (the_begin this)))"

definition rend_const :: "(dynarray \<Rightarrow> reverse_iterator) member_fn" where
  "rend_const = uses begin_const (\<lambda>the_begin. uses reverse_iterator_from_const
     (\<lambda>make. Member (\<lambda>this. make (the_begin this))))"

definition crend :: "(dynarray \<Rightarrow> reverse_iterator) member_fn" where
  "crend = uses cbegin (\<lambda>the_cbegin. uses reverse_iterator_from_const
     (\<lambda>make. Member (\<lambda>this. make (the_cbegin this))))"

subsection \<open>Element access\<close>

text \<open>
  \<^verbatim>\<open>m_data[pos]\<close> is a reference to the element \<open>pos\<close> places after the stored
  pointer; a reference is modelled as the pointer to that element. These bodies use
  \<^verbatim>\<open>operator[]\<close> of the \<^verbatim>\<open>unique_ptr\<close> only, so they are well-formed; the const
  and the non-const overload have the same body and are one function here. \<open>at\<close>
  either throws or returns; it is given the store and returns it so that its effect on
  the store can be stated.
\<close>

definition subscript :: "dynarray \<Rightarrow> nat \<Rightarrow> ptr" where
  "subscript this pos = Ptr (m_data this) pos"

definition at :: "dynarray \<Rightarrow> nat \<Rightarrow> 'a heap \<Rightarrow> (error + ptr) \<times> 'a heap" where
  "at this pos h =
     (if pos \<ge> size_d this
      then (Inl (OutOfRange
              (''cannot access element at position '' @ to_string pos @
               '' from a dynarray with size '' @ to_string (size_d this))), h)
      else (Inr (Ptr (m_data this) pos), h))"

text \<open>
  \<^verbatim>\<open>size() - 1\<close> is computed in \<^verbatim>\<open>size_t\<close>: on an empty dynarray it wraps to the
  largest value, which is outside every array; the model has no pointer for it.
\<close>

definition front :: "dynarray \<Rightarrow> ptr" where
  "front this = Ptr (m_data this) 0"

definition back_d :: "dynarray \<Rightarrow> ptr option" where
  "back_d this = (if size_d this = 0 then None else Some (Ptr (m_data this) (size_d this - 1)))"

subsection \<open>Constructors\<close>

text \<open>
  Members are initialised in declaration order, \<open>m_data\<close> before \<open>m_size\<close>. A
  constructor returns the new object and the store, or the exception of the
  allocation; one whose body runs a library loop returns \<open>None\<close> when the loop is
  undefined. The constructors whose body calls \<^verbatim>\<open>begin()\<close> or \<^verbatim>\<open>end()\<close> are
  member functions that may be ill-formed. The copy constructor calls the const
  overloads on \<open>other\<close>. The overloads that take an allocator differ only in calling
  \<^verbatim>\<open>alloc.allocate(count)\<close> where these call \<^verbatim>\<open>new T[count]\<close>; they are not modelled.
\<close>

definition dynarray_count ::
    "allocation \<Rightarrow> nat \<Rightarrow> 'a \<Rightarrow> 'a heap \<Rightarrow> error + dynarray \<times> 'a heap" where
  "dynarray_count al count dflt h =
     (case new_array al count dflt h of
        Inl e \<Rightarrow> Inl e
      | Inr (a, h1) \<Rightarrow> Inr (\<lparr>m_data = Some a, m_size = count\<rparr>, h1))"

definition dynarray_count_value ::
    "(allocation \<Rightarrow> nat \<Rightarrow> 'a \<Rightarrow> 'a \<Rightarrow> 'a heap \<Rightarrow> (error + dynarray \<times> 'a heap) option) member_fn" where
  "dynarray_count_value =
     uses begin_d (\<lambda>the_begin. uses end_d (\<lambda>the_end.
       Member (\<lambda>al count value dflt h.
         case new_array al count dflt h of
           Inl e \<Rightarrow> Some (Inl e)
         | Inr (a, h1) \<Rightarrow>
             (let this = \<lparr>m_data = Some a, m_size = count\<rparr>
              in map_option (\<lambda>h2. Inr (this, h2))
                   (std_fill (the_begin this) (the_end this) value h1)))))"

definition dynarray_copy ::
    "(allocation \<Rightarrow> dynarray \<Rightarrow> 'a \<Rightarrow> 'a heap \<Rightarrow> (error + dynarray \<times> 'a heap) option) member_fn" where
  "dynarray_copy =
     uses begin_const (\<lambda>other_begin. uses end_const (\<lambda>other_end. uses begin_d (\<lambda>the_begin.
       Member (\<lambda>al other dflt h.
         case new_array al (size_d other) dflt h of
           Inl e \<Rightarrow> Some (Inl e)
         | Inr (a, h1) \<Rightarrow>
             (let this = \<lparr>m_data = Some a, m_size = size_d other\<rparr>
              in map_option (\<lambda>h2. Inr (this, h2))
                   (std_copy (other_begin other) (other_end other) (the_begin this) h1))))))"

text \<open>
  The move constructor returns the new object and what is left of \<open>other\<close>:
  \<^verbatim>\<open>std::move(other.m_data)\<close> leaves \<open>other\<close> holding the null pointer, and then
  \<^verbatim>\<open>other.size()\<close> is read. The store is not touched.
\<close>

definition dynarray_move :: "dynarray \<Rightarrow> dynarray \<times> dynarray" where
  "dynarray_move other =
     (let p = m_data other;
          other1 = other\<lparr>m_data := None\<rparr>
      in (\<lparr>m_data = p, m_size = size_d other1\<rparr>, other1))"

definition dynarray_init ::
    "(allocation \<Rightarrow> initializer_list \<Rightarrow> 'a \<Rightarrow> 'a heap \<Rightarrow> (error + dynarray \<times> 'a heap) option) member_fn" where
  "dynarray_init =
     uses begin_d (\<lambda>the_begin.
       Member (\<lambda>al list dflt h.
         case new_array al (il_size list) dflt h of
           Inl e \<Rightarrow> Some (Inl e)
         | Inr (a, h1) \<Rightarrow>
             (let this = \<lparr>m_data = Some a, m_size = il_size list\<rparr>
              in map_option (\<lambda>h2. Inr (this, h2))
                   (std_copy (il_begin list) (il_end list) (the_begin this) h1))))"

subsection \<open>Assignment\<close>

text \<open>
  The copy assignments write elements only, never a member of \<open>this\<close>, and return
  \<^verbatim>\<open>*this\<close>. A thrown exception comes with the store at the throw. Both bodies call
  \<^verbatim>\<open>begin()\<close>, and the first calls the const overloads on \<open>other\<close>. The move
  assignment is two calls of \<^verbatim>\<open>std::swap\<close>.
\<close>

definition assign_copy ::
    "(dynarray \<Rightarrow> dynarray \<Rightarrow> 'a heap \<Rightarrow> ((error + dynarray) \<times> 'a heap) option) member_fn" where
  "assign_copy =
     uses begin_const (\<lambda>other_begin. uses end_const (\<lambda>other_end. uses begin_d (\<lambda>the_begin.
       Member (\<lambda>this other h.
         if size_d this \<noteq> size_d other
         then Some (Inl (InvalidArgument
                 (''cannot copy-assign dynarray of size '' @ to_string (size_d other) @
                  '' into dynarray of size '' @ to_string (size_d this))), h)
         else map_option (Pair (Inr this))
                (std_copy (other_begin other) (other_end other) (the_begin this) h)))))"

definition assign_move :: "dynarray \<Rightarrow> dynarray \<Rightarrow> dynarray \<times> dynarray" where
  "assign_move this other =
     (let (d1, d2) = std_swap (m_data this, m_data other);
          (s1, s2) = std_swap (m_size this, m_size other)
      in (\<lparr>m_data = d1, m_size = s1\<rparr>, \<lparr>m_data = d2, m_size = s2\<rparr>))"

definition assign_init ::
    "(dynarray \<Rightarrow> initializer_list \<Rightarrow> 'a heap \<Rightarrow> ((error + dynarray) \<times> 'a heap) option) member_fn" where
  "assign_init =
     uses begin_d (\<lambda>the_begin.
       Member (\<lambda>this list h.
         if size_d this \<noteq> il_size list
         then Some (Inl (InvalidArgument
                 (''cannot copy-assign initializer_list of size '' @ to_string (il_size list) @
                  '' into dynarray of size '' @ to_string (size_d this))), h)
         else map_option (Pair (Inr this))
                (std_copy (il_begin list) (il_end list) (the_begin this) h)))"

subsection \<open>Mutation\<close>

definition fill :: "(dynarray \<Rightarrow> 'a \<Rightarrow> 'a heap \<Rightarrow> 'a heap option) member_fn" where
  "fill =
     uses begin_d (\<lambda>the_begin. uses end_d (\<lambda>the_end.
       Member (\<lambda>this value h. std_fill (the_begin this) (the_end this) value h)))"

section \<open>Using the class: element reads, traversals, the class invariant\<close>

text \<open>\<^verbatim>\<open>d[i]\<close> read as a value.\<close>

definition read_at :: "'a heap \<Rightarrow> dynarray \<Rightarrow> nat \<Rightarrow> 'a option" where
  "read_at h d i = deref h (subscript d i)"

text \<open>
  The loop \<^verbatim>\<open>for (auto it = first; it != last; ++it) visit(*it);\<close> over pointers
  and over reverse iterators. The result lists the visited elements in visiting order,
  one for each step of the loop, so its length is the number of steps taken.
\<close>

function traverse :: "'a heap \<Rightarrow> ptr \<Rightarrow> ptr \<Rightarrow> 'a list option" where
  "traverse h it p_last =
     (if it = p_last then Some []
      else case deref h it of
             None \<Rightarrow> None
           | Some v \<Rightarrow> map_option ((#) v) (traverse h (ptr_inc it) p_last))"
  by pat_completeness auto
termination
proof (relation "measure (\<lambda>(h, it, p_last). extent h it - off it)")
  show "wf (measure (\<lambda>(h, it, p_last). extent h it - off it))"
    by simp
next
  fix h :: "'a heap" and it p_last :: ptr and v :: 'a
  assume "deref h it = Some v"
  then have "off it < extent h it \<and> extent h (ptr_inc it) = extent h it
      \<and> off (ptr_inc it) = Suc (off it)"
    by (cases it; cases "base it") (auto split: if_splits simp: ptr_inc_def)
  then show "((h, ptr_inc it, p_last), (h, it, p_last))
      \<in> measure (\<lambda>(h, it, p_last). extent h it - off it)"
    by (auto intro: diff_less_mono2)
qed

function rtraverse ::
    "'a heap \<Rightarrow> reverse_iterator \<Rightarrow> reverse_iterator \<Rightarrow> 'a list option" where
  "rtraverse h it r_last =
     (if it = r_last then Some []
      else case rev_deref h it of
             None \<Rightarrow> None
           | Some v \<Rightarrow>
               (case rev_inc it of
                  None \<Rightarrow> None
                | Some it' \<Rightarrow> map_option ((#) v) (rtraverse h it' r_last)))"
  by pat_completeness auto
termination
proof (relation "measure (\<lambda>(h, it, r_last). off (current it))")
  show "wf (measure (\<lambda>(h, it, r_last). off (current it)))"
    by simp
next
  fix h :: "'a heap" and it r_last it' :: reverse_iterator and v :: 'a
  assume "rev_inc it = Some it'"
  then have "off (current it') < off (current it)"
    by (cases it; cases "current it"; cases "off (current it)") (auto simp: rev_inc_def)
  then show "((h, it', r_last), (h, it, r_last)) \<in> measure (\<lambda>(h, it, r_last). off (current it))"
    by simp
qed

text \<open>
  The two loops over a dynarray \<open>d\<close>, from \<^verbatim>\<open>d.begin()\<close> to \<^verbatim>\<open>d.end()\<close> and from
  \<^verbatim>\<open>d.rbegin()\<close> to \<^verbatim>\<open>d.rend()\<close>. A program that contains such a loop names these
  members.
\<close>

definition forward_traversal :: "(dynarray \<Rightarrow> 'a heap \<Rightarrow> 'a list option) member_fn" where
  "forward_traversal =
     uses begin_d (\<lambda>the_begin. uses end_d (\<lambda>the_end.
       Member (\<lambda>d h. traverse h (the_begin d) (the_end d))))"

definition reverse_traversal :: "(dynarray \<Rightarrow> 'a heap \<Rightarrow> 'a list option) member_fn" where
  "reverse_traversal =
     uses rbegin (\<lambda>the_rbegin. uses rend (\<lambda>the_rend.
       Member (\<lambda>d h. rtraverse h (the_rbegin d) (the_rend d))))"

text \<open>
  The class invariant: the object holds a live array of exactly \<open>m_size\<close> elements,
  or it holds the null pointer and its size is 0 (what a move leaves of an empty
  dynarray).
\<close>

definition well_formed :: "'a heap \<Rightarrow> dynarray \<Rightarrow> bool" where
  "well_formed h d =
     (case m_data d of
        None \<Rightarrow> m_size d = 0
      | Some a \<Rightarrow> a < length h \<and> length (h ! a) = m_size d)"

section \<open>Which members are ill-formed\<close>

text \<open>
  \<^verbatim>\<open>data\<close>, \<^verbatim>\<open>begin\<close> and \<^verbatim>\<open>end\<close> in all their overloads name
  \<^verbatim>\<open>m_data.data()\<close>, and so does everything built on them: the reverse accessors,
  \<^verbatim>\<open>fill\<close>, the two copy assignments, and the constructors by count and value, by
  copy and by initializer list. No call of any of them compiles.
\<close>

lemma uses_Ill_formed: "uses Ill_formed k = Ill_formed"
  by (simp add: uses_def)

lemma app_Ill_formed: "app Ill_formed x = Ill_formed"
  by (simp add: app_def)

lemma data_ill_formed: "data = Ill_formed" "data_const = Ill_formed"
  by (simp_all add: data_def data_const_def unique_ptr_data_def uses_Ill_formed)

lemma begin_ill_formed: "begin_d = Ill_formed" "begin_const = Ill_formed" "cbegin = Ill_formed"
  by (simp_all add: begin_d_def begin_const_def cbegin_def unique_ptr_data_def uses_Ill_formed)

lemma end_ill_formed: "end_d = Ill_formed" "end_const = Ill_formed" "cend = Ill_formed"
  by (simp_all add: end_d_def end_const_def cend_def unique_ptr_data_def uses_Ill_formed)

lemma rbegin_ill_formed: "rbegin = Ill_formed" "rbegin_const = Ill_formed" "crbegin = Ill_formed"
  by (simp_all add: rbegin_def rbegin_const_def crbegin_def end_ill_formed uses_Ill_formed)

lemma rend_ill_formed: "rend = Ill_formed" "rend_const = Ill_formed" "crend = Ill_formed"
  by (simp_all add: rend_def rend_const_def crend_def begin_ill_formed uses_Ill_formed)

lemma fill_ill_formed: "fill = Ill_formed"
  by (simp add: fill_def begin_ill_formed uses_Ill_formed)

lemma assign_copy_ill_formed: "assign_copy = Ill_formed"
  by (simp add: assign_copy_def begin_ill_formed uses_Ill_formed)

lemma assign_init_ill_formed: "assign_init = Ill_formed"
  by (simp add: assign_init_def begin_ill_formed uses_Ill_formed)

lemma dynarray_count_value_ill_formed: "dynarray_count_value = Ill_formed"
  by (simp add: dynarray_count_value_def begin_ill_formed uses_Ill_formed)

lemma dynarray_copy_ill_formed: "dynarray_copy = Ill_formed"
  by (simp add: dynarray_copy_def begin_ill_formed uses_Ill_formed)

lemma dynarray_init_ill_formed: "dynarray_init = Ill_formed"
  by (simp add: dynarray_init_def begin_ill_formed uses_Ill_formed)

lemma forward_traversal_ill_formed: "forward_traversal = Ill_formed"
  by (simp add: forward_traversal_def begin_ill_formed uses_Ill_formed)

lemma reverse_traversal_ill_formed: "reverse_traversal = Ill_formed"
  by (simp add: reverse_traversal_def rbegin_ill_formed uses_Ill_formed)

section \<open>The members that are well-formed\<close>

text \<open>
  The move constructor hands the source's members to the new object unchanged, so the
  new object is well formed when the source was. What is left of the source is well
  formed only if the source was empty.
\<close>

lemma dynarray_move_new: "fst (dynarray_move other) = other"
  by (simp add: dynarray_move_def Let_def size_d_def)

lemma dynarray_move_source: "snd (dynarray_move other) = other\<lparr>m_data := None\<rparr>"
  by (simp add: dynarray_move_def Let_def)

lemma dynarray_move_source_well_formed:
  "well_formed h (snd (dynarray_move other)) \<longleftrightarrow> m_size other = 0"
  by (simp add: dynarray_move_def Let_def well_formed_def)

text \<open>
  \<open>at\<close> throws \<open>OutOfRange\<close>, with the offset and the size in the message, exactly when
  the offset is not below the size, and it never changes the store. On a well-formed
  dynarray the reference it returns otherwise is the element at that offset of the
  array.
\<close>

lemma at_throws_iff:
  "(\<exists>msg. fst (at d pos h) = Inl (OutOfRange msg)) \<longleftrightarrow> pos \<ge> size_d d"
  by (simp add: at_def)

lemma at_message:
  "pos \<ge> size_d d \<Longrightarrow>
   fst (at d pos h) = Inl (OutOfRange
      (''cannot access element at position '' @ to_string pos @
       '' from a dynarray with size '' @ to_string (size_d d)))"
  by (simp add: at_def)

lemma at_keeps_store: "snd (at d pos h) = h"
  by (simp add: at_def)

lemma at_element:
  assumes "well_formed h d" and "pos < size_d d"
  shows "\<exists>a p. m_data d = Some a \<and> fst (at d pos h) = Inr p \<and> deref h p = Some (h ! a ! pos)"
  using assms by (auto simp: at_def size_d_def well_formed_def split: option.splits)

text \<open>
  The constructor by count makes a well-formed object when the allocation succeeds,
  and throws the exception of the allocation otherwise.
\<close>

lemma dynarray_count_throws:
  "max_bytes al < array_bytes al count \<or> avail_bytes al < array_bytes al count \<Longrightarrow>
   \<exists>e. dynarray_count al count dflt h = Inl e"
  by (auto simp: dynarray_count_def new_array_def)

section \<open>The claims\<close>

text \<open>
  Claim C1, at a concrete input. Move-constructing from a dynarray that holds the array
  \<open>[1, 2, 3]\<close> gives the new object the size 3 and the three elements, as the claim
  says. The source is left with the null pointer, but \<^verbatim>\<open>m_size\<close> is never written:
  it still reports \<open>size() = 3\<close> and \<open>empty() = false\<close>, so \<open>at(0)\<close> passes its bounds
  check and returns a reference through the null pointer. The claim says the source
  reports \<open>size() == 0\<close>.
\<close>

theorem move_construct_source_size:
  "(case dynarray_move \<lparr>m_data = Some 0, m_size = 3\<rparr> of
      (new, other) \<Rightarrow>
        size_d new = 3
        \<and> map (read_at [[1, 2, 3 :: int]] new) [0, 1, 2] = [Some 1, Some 2, Some 3]
        \<and> m_data other = None
        \<and> size_d other = 3
        \<and> size_d other \<noteq> 0
        \<and> empty_d other = False
        \<and> fst (at other 0 [[1, 2, 3 :: int]]) = Inr (Ptr None 0)
        \<and> read_at [[1, 2, 3 :: int]] other 0 = None)"
  by (simp add: dynarray_move_def size_d_def empty_d_def read_at_def subscript_def at_def)

text \<open>
  Claim C2, at concrete inputs. Neither copy assignment can be called: both bodies
  name \<^verbatim>\<open>begin()\<close>, whose body \<^verbatim>\<open>m_data.data()\<close> is ill-formed. A target of size 3
  assigned from a dynarray of size 5, from a dynarray of size 3, from an initializer
  list of length 5 and from one of length 3: no program with such an assignment
  compiles, so nothing is thrown and nothing is copied. The claim says the first and
  the third throw \<open>InvalidArgument\<close> and the second and the fourth copy every element.
\<close>

theorem copy_assign_does_not_compile:
  "app (app (app assign_copy \<lparr>m_data = Some 0, m_size = 3\<rparr>) \<lparr>m_data = Some 1, m_size = 5\<rparr>)
       [[1, 2, 3 :: int], [4, 5, 6, 7, 8], [7, 8, 9]] = Ill_formed
   \<and> app (app (app assign_copy \<lparr>m_data = Some 0, m_size = 3\<rparr>) \<lparr>m_data = Some 2, m_size = 3\<rparr>)
       [[1, 2, 3 :: int], [4, 5, 6, 7, 8], [7, 8, 9]] = Ill_formed
   \<and> app (app (app assign_init \<lparr>m_data = Some 0, m_size = 3\<rparr>)
            \<lparr>il_first = Ptr (Some 1) 0, il_len = 5\<rparr>)
       [[1, 2, 3 :: int], [4, 5, 6, 7, 8], [7, 8, 9]] = Ill_formed
   \<and> app (app (app assign_init \<lparr>m_data = Some 0, m_size = 3\<rparr>)
            \<lparr>il_first = Ptr (Some 2) 0, il_len = 3\<rparr>)
       [[1, 2, 3 :: int], [4, 5, 6, 7, 8], [7, 8, 9]] = Ill_formed"
  by (simp add: assign_copy_ill_formed assign_init_ill_formed app_Ill_formed)

text \<open>
  Claim C3, at a concrete input. What the move constructor leaves of a dynarray that
  held \<open>[1, 2, 3]\<close> has the size 3 and the null pointer. On it \<open>at(0)\<close> does not throw,
  since 0 is below the size, and the reference it returns is the null pointer: reading
  it is undefined. The claim says \<open>at(pos)\<close> returns the element at \<open>pos\<close> whenever
  \<open>pos\<close> is below the size.
\<close>

theorem at_moved_from_source:
  "(case dynarray_move \<lparr>m_data = Some 0, m_size = 3\<rparr> of
      (new, other) \<Rightarrow>
        (0 :: nat) < size_d other
        \<and> at other 0 [[1, 2, 3 :: int]] = (Inr (Ptr None 0), [[1, 2, 3]])
        \<and> deref [[1, 2, 3 :: int]] (Ptr None 0) = None)"
  by (simp add: dynarray_move_def size_d_def at_def)

text \<open>
  Claim C4. Move assignment exchanges the two objects: afterwards the target is what
  the source was and the source is what the target was, so each has the size and reads
  the elements the other had. Nothing is required of the two lengths, and no element
  is touched.
\<close>

theorem assign_move_exchanges:
  "(case assign_move this other of
      (this', other') \<Rightarrow>
        this' = other \<and> other' = this
        \<and> size_d this' = size_d other \<and> size_d other' = size_d this
        \<and> (\<forall>i. read_at h this' i = read_at h other i)
        \<and> (\<forall>i. read_at h other' i = read_at h this i))"
  by (simp add: assign_move_def std_swap_def size_d_def read_at_def subscript_def)

theorem assign_move_exchanges_witness:
  "(case assign_move \<lparr>m_data = Some 0, m_size = 3\<rparr> \<lparr>m_data = Some 1, m_size = 5\<rparr> of
      (this', other') \<Rightarrow>
        size_d this' = 5 \<and> size_d other' = 3
        \<and> read_at [[1, 2, 3 :: int], [4, 5, 6, 7, 8]] this' 4 = Some 8
        \<and> read_at [[1, 2, 3 :: int], [4, 5, 6, 7, 8]] other' 2 = Some 3)"
  using assign_move_exchanges [where this = "\<lparr>m_data = Some 0, m_size = 3\<rparr>"
      and other = "\<lparr>m_data = Some 1, m_size = 5\<rparr>"
      and h = "[[1, 2, 3 :: int], [4, 5, 6, 7, 8]]"]
  by (auto simp: size_d_def read_at_def subscript_def split: prod.splits)

text \<open>
  Claim C5, at a concrete input. The copy constructor cannot be called: its body names
  \<^verbatim>\<open>other.begin()\<close>, \<^verbatim>\<open>other.end()\<close> and \<^verbatim>\<open>begin()\<close>, whose bodies are ill-formed. No
  program that copies a dynarray holding \<open>[1, 2, 3]\<close> compiles, so there is no copy.
  The claim says the copy has the size and the elements of the source.
\<close>

theorem copy_construct_does_not_compile:
  "app (app (app (app dynarray_copy \<lparr>sizeof_T = 4, max_bytes = 2 ^ 64 - 1, avail_bytes = 2 ^ 32\<rparr>)
                  \<lparr>m_data = Some 0, m_size = 3\<rparr>) (0 :: int)) [[1, 2, 3]] = Ill_formed"
  by (simp add: dynarray_copy_ill_formed app_Ill_formed)

text \<open>
  Claim C6, at concrete inputs. The constructor from an initializer list cannot be
  called: its body names \<^verbatim>\<open>begin()\<close>, whose body is ill-formed. No program that
  constructs a dynarray from \<open>{}\<close>, \<open>{5}\<close> or \<open>{1, 2, 3}\<close> compiles, so there is nothing
  to read back. The claim says reading every offset reproduces the sequence.
\<close>

theorem init_list_construct_does_not_compile:
  "app (app (app (app dynarray_init \<lparr>sizeof_T = 4, max_bytes = 2 ^ 64 - 1, avail_bytes = 2 ^ 32\<rparr>)
                  (fst (braced_init ([] :: int list) []))) 0)
       (snd (braced_init ([] :: int list) [])) = Ill_formed
   \<and> app (app (app (app dynarray_init \<lparr>sizeof_T = 4, max_bytes = 2 ^ 64 - 1, avail_bytes = 2 ^ 32\<rparr>)
                  (fst (braced_init [5 :: int] []))) 0)
       (snd (braced_init [5 :: int] [])) = Ill_formed
   \<and> app (app (app (app dynarray_init \<lparr>sizeof_T = 4, max_bytes = 2 ^ 64 - 1, avail_bytes = 2 ^ 32\<rparr>)
                  (fst (braced_init [1, 2, 3 :: int] []))) 0)
       (snd (braced_init [1, 2, 3 :: int] [])) = Ill_formed"
  by (simp add: dynarray_init_ill_formed app_Ill_formed)

text \<open>
  Claim C7, at a concrete input. \<open>fill\<close> cannot be called: its body names \<^verbatim>\<open>begin()\<close>
  and \<^verbatim>\<open>end()\<close>, whose bodies are ill-formed. No program that fills a dynarray
  holding \<open>[1, 2, 3]\<close> with 9 compiles, so no element is set. The claim says every
  element equals the value afterwards.
\<close>

theorem fill_does_not_compile:
  "app (app (app fill \<lparr>m_data = Some 0, m_size = 3\<rparr>) (9 :: int)) [[1, 2, 3], [4]] = Ill_formed"
  by (simp add: fill_ill_formed app_Ill_formed)

text \<open>
  Claim C8, at a concrete input. None of the iterator accessors can be called on a
  dynarray holding \<open>[1, 2, 3]\<close>: \<^verbatim>\<open>begin()\<close> and \<^verbatim>\<open>end()\<close> are ill-formed in every
  overload, and so are \<^verbatim>\<open>rbegin()\<close> and \<^verbatim>\<open>rend()\<close>, which are built from them. No
  program that traverses the dynarray forwards or backwards compiles. The claim says
  the forward traversal visits 1, 2, 3 in \<open>size()\<close> steps and the reverse one 3, 2, 1.
\<close>

theorem iteration_does_not_compile:
  "app begin_d \<lparr>m_data = Some 0, m_size = 3\<rparr> = Ill_formed
   \<and> app end_d \<lparr>m_data = Some 0, m_size = 3\<rparr> = Ill_formed
   \<and> app begin_const \<lparr>m_data = Some 0, m_size = 3\<rparr> = Ill_formed
   \<and> app end_const \<lparr>m_data = Some 0, m_size = 3\<rparr> = Ill_formed
   \<and> app rbegin \<lparr>m_data = Some 0, m_size = 3\<rparr> = Ill_formed
   \<and> app rend \<lparr>m_data = Some 0, m_size = 3\<rparr> = Ill_formed
   \<and> app rbegin_const \<lparr>m_data = Some 0, m_size = 3\<rparr> = Ill_formed
   \<and> app rend_const \<lparr>m_data = Some 0, m_size = 3\<rparr> = Ill_formed
   \<and> app (app forward_traversal \<lparr>m_data = Some 0, m_size = 3\<rparr>) [[1, 2, 3 :: int]] = Ill_formed
   \<and> app (app reverse_traversal \<lparr>m_data = Some 0, m_size = 3\<rparr>) [[1, 2, 3 :: int]] = Ill_formed"
  by (simp add: begin_ill_formed end_ill_formed rbegin_ill_formed rend_ill_formed
      forward_traversal_ill_formed reverse_traversal_ill_formed app_Ill_formed)

text \<open>
  Claim C9, as amended. For every count for which the allocation of \<open>count\<close> elements
  succeeds (the array is within the implementation's limit and the memory is there),
  the constructor by count gives a dynarray with \<open>size() = count\<close> and
  \<open>empty() = (count = 0)\<close>, which holds a fresh array of \<open>count\<close> elements. Nothing is
  said of the constructor by count and value.
\<close>

theorem construct_by_count_allocated:
  assumes "array_bytes al count \<le> max_bytes al" and "array_bytes al count \<le> avail_bytes al"
  shows "\<exists>d h'. dynarray_count al count dflt h = Inr (d, h')
           \<and> size_d d = count \<and> empty_d d = (count = 0)
           \<and> well_formed h' d \<and> m_data d = Some (length h)"
  using assms
  by (simp add: dynarray_count_def new_array_def size_d_def empty_d_def well_formed_def)

theorem construct_by_count_allocated_witness:
  "array_bytes \<lparr>sizeof_T = 4, max_bytes = 2 ^ 64 - 1, avail_bytes = 2 ^ 32\<rparr> 2 \<le> 2 ^ 64 - 1
   \<and> array_bytes \<lparr>sizeof_T = 4, max_bytes = 2 ^ 64 - 1, avail_bytes = 2 ^ 32\<rparr> 2 \<le> 2 ^ 32
   \<and> (\<exists>d h'. dynarray_count \<lparr>sizeof_T = 4, max_bytes = 2 ^ 64 - 1, avail_bytes = 2 ^ 32\<rparr>
                 2 (0 :: int) [] = Inr (d, h')
          \<and> size_d d = 2 \<and> empty_d d = False)
   \<and> (\<exists>d h'. dynarray_count \<lparr>sizeof_T = 4, max_bytes = 2 ^ 64 - 1, avail_bytes = 2 ^ 32\<rparr>
                 0 (0 :: int) [] = Inr (d, h')
          \<and> size_d d = 0 \<and> empty_d d = True)"
proof -
  let ?al = "\<lparr>sizeof_T = 4, max_bytes = 2 ^ 64 - 1, avail_bytes = 2 ^ 32\<rparr>"
  have two: "array_bytes ?al 2 \<le> max_bytes ?al" "array_bytes ?al 2 \<le> avail_bytes ?al"
    and zero: "array_bytes ?al 0 \<le> max_bytes ?al" "array_bytes ?al 0 \<le> avail_bytes ?al"
    by (simp_all add: array_bytes_def)
  from construct_by_count_allocated [OF two, of "0 :: int" "[]"]
    construct_by_count_allocated [OF zero, of "0 :: int" "[]"]
    two
  show ?thesis by auto
qed

theorem construct_by_count_counterexample:
  "dynarray_count \<lparr>sizeof_T = 4, max_bytes = 2 ^ 64 - 1, avail_bytes = 2 ^ 32\<rparr>
       (2 ^ 64 - 1) (0 :: int) [] = Inl BadArrayNewLength
   \<and> dynarray_count \<lparr>sizeof_T = 4, max_bytes = 2 ^ 64 - 1, avail_bytes = 2 ^ 32\<rparr>
       (2 ^ 32) (0 :: int) [] = Inl BadAlloc
   \<and> app (app (app (app (app dynarray_count_value
              \<lparr>sizeof_T = 4, max_bytes = 2 ^ 64 - 1, avail_bytes = 2 ^ 32\<rparr>) 3) (7 :: int)) 0) []
       = Ill_formed"
  by (simp add: dynarray_count_def new_array_def array_bytes_def
      dynarray_count_value_ill_formed app_Ill_formed)

text \<open>
  Claim C10. For an offset below \<open>size()\<close>, \<open>at\<close> does not throw and returns the very
  reference \<open>operator[]\<close> returns, so both read the same element.
\<close>

theorem at_agrees_with_subscript:
  assumes "pos < size_d d"
  shows "fst (at d pos h) = Inr (subscript d pos)
         \<and> (\<exists>p. fst (at d pos h) = Inr p \<and> deref h p = read_at h d pos)"
  using assms by (simp add: at_def subscript_def read_at_def)

theorem at_agrees_with_subscript_witness:
  "(2::nat) < size_d \<lparr>m_data = Some 0, m_size = 3\<rparr>
   \<and> fst (at \<lparr>m_data = Some 0, m_size = 3\<rparr> 2 [[1, 2, 3 :: int]]) = Inr (Ptr (Some 0) 2)
   \<and> deref [[1, 2, 3 :: int]] (Ptr (Some 0) 2) = Some 3"
proof -
  have lt: "(2::nat) < size_d \<lparr>m_data = Some 0, m_size = 3\<rparr>"
    by (simp add: size_d_def)
  show ?thesis
    using lt at_agrees_with_subscript [OF lt, of "[[1, 2, 3 :: int]]"]
    by (simp add: subscript_def)
qed

end
